theory Spec2Isabelle
  imports Main "HOL-Library.Sublist"
begin

section \<open>Python strings\<close>

text \<open>
  A Python \<open>str\<close> is a sequence of code points. The model is \<open>string\<close>, where a
  \<open>char\<close> stands for one code point below 256 (ASCII and Latin-1); the docstrings of
  \<open>cli.py\<close> are ASCII. The library operations used by \<open>cli.py\<close> are written out for
  this range as CPython defines them.
\<close>

text \<open>\<open>sub in s\<close> on strings: \<open>sub\<close> occurs in \<open>s\<close> as a contiguous block.\<close>

definition str_in :: "string \<Rightarrow> string \<Rightarrow> bool" where
  "str_in sub s \<longleftrightarrow> sublist sub s"

text \<open>
  The line boundaries of \<open>str.splitlines\<close>: LF, VT, FF, CR, FS, GS, RS and NEL
  (and CR LF as one boundary).
\<close>

definition is_linebreak :: "char \<Rightarrow> bool" where
  "is_linebreak c \<longleftrightarrow>
     c \<in> set [CHR 0x0A, CHR 0x0B, CHR 0x0C, CHR 0x0D, CHR 0x1C, CHR 0x1D, CHR 0x1E, CHR 0x85]"

text \<open>
  \<open>splitlines_from cur s\<close>: the lines of \<open>s\<close>, where \<open>cur\<close> is the part of the
  current line already read. A final line is produced only if it is not empty, so a
  trailing line boundary adds no empty line.
\<close>

fun splitlines_from :: "string \<Rightarrow> string \<Rightarrow> string list" where
  "splitlines_from cur [] = (if cur = [] then [] else [cur])"
| "splitlines_from cur [c] =
     (if is_linebreak c then [cur] else [cur @ [c]])"
| "splitlines_from cur (c # d # s) =
     (if c = CHR 0x0D \<and> d = CHR 0x0A then cur # splitlines_from [] s
      else if is_linebreak c then cur # splitlines_from [] (d # s)
      else splitlines_from (cur @ [c]) (d # s))"

definition splitlines :: "string \<Rightarrow> string list" where
  "splitlines s = splitlines_from [] s"

text \<open>The characters that \<open>str.strip\<close>, \<open>str.lstrip\<close> and \<open>str.rstrip\<close> remove by default.\<close>

definition is_space :: "char \<Rightarrow> bool" where
  "is_space c \<longleftrightarrow>
     c \<in> set [CHR 0x09, CHR 0x0A, CHR 0x0B, CHR 0x0C, CHR 0x0D, CHR 0x1C, CHR 0x1D, CHR 0x1E,
              CHR 0x1F, CHR 0x20, CHR 0x85, CHR 0xA0]"

definition lstrip :: "string \<Rightarrow> string" where
  "lstrip s = dropWhile is_space s"

definition strip :: "string \<Rightarrow> string" where
  "strip s = rev (dropWhile is_space (rev (dropWhile is_space s)))"

text \<open>\<open>s.rstrip(".")\<close>: every trailing full stop is removed.\<close>

definition rstrip_dot :: "string \<Rightarrow> string" where
  "rstrip_dot s = rev (dropWhile (\<lambda>c. c = CHR ''.'') (rev s))"

text \<open>
  \<open>str.lower\<close> on one code point below 256: the letters A to Z and the upper-case
  Latin-1 letters (192 to 222 without the multiplication sign 215) move up by 32.
\<close>

definition lower_char :: "char \<Rightarrow> char" where
  "lower_char c =
     (let n = (of_char c :: nat)
      in if (65 \<le> n \<and> n \<le> 90) \<or> (192 \<le> n \<and> n \<le> 222 \<and> n \<noteq> 215)
         then char_of (n + 32) else c)"

definition lower :: "string \<Rightarrow> string" where
  "lower s = map lower_char s"

section \<open>Errors\<close>

text \<open>
  The exceptions that can leave a function of \<open>cli.py\<close>. \<open>KeyError\<close> carries the
  argument name from which its message \<open>The docstring does not include arg=...\<close> is
  built, \<open>SystemExit\<close> the exit status that \<open>argparse\<close> asks for, and \<open>Raised\<close> stands
  for an exception raised inside the modules \<open>container\<close> and \<open>pack\<close>, named by a string.
\<close>

datatype error =
    KeyError string
  | AttributeError
  | TypeError
  | IndexError
  | SystemExit int
  | Raised string

section \<open>The help extractor\<close>

text \<open>
  \<open>_extract_help_from_docstring\<close>. The loop over the lines is \<open>scan_lines\<close>, with the
  loop variables \<open>arg_found\<close> and \<open>arg_desc\<close> as arguments. \<open>the_description\<close> is the
  expression of the \<open>return\<close> statement. The \<open>else\<close> clause of the \<open>for\<close> statement
  runs whenever the loop ends without having returned: it is the equation for the empty
  list, whatever \<open>arg_found\<close> is.
\<close>

definition the_description :: "string list \<Rightarrow> string" where
  "the_description arg_desc = rstrip_dot (lower (lstrip (concat arg_desc)))"

fun scan_lines :: "string \<Rightarrow> bool \<Rightarrow> string list \<Rightarrow> string list \<Rightarrow> error + string" where
  "scan_lines arg arg_found arg_desc [] = Inl (KeyError arg)"
| "scan_lines arg arg_found arg_desc (line # lines) =
     (if arg_found then
        (if str_in '' : '' line \<or> strip line = [] then Inr (the_description arg_desc)
         else scan_lines arg True (arg_desc @ [line, '' '']) lines)
      else if str_in (arg @ '' : '') line then scan_lines arg True arg_desc lines
      else scan_lines arg False arg_desc lines)"

definition extract_help_from_docstring :: "string \<Rightarrow> string \<Rightarrow> error + string" where
  "extract_help_from_docstring arg docstring = scan_lines arg False [] (splitlines docstring)"

text \<open>The docstring of the class \<open>Build\<close>, as written in \<open>cli.py\<close>.\<close>

definition Build_doc :: string where
  \<open>Build_doc = concat (map (\<lambda>l. l @ [CHR 0x0A])
     ['''',
      ''    Build a container.'',
      '''',
      ''    The "build" subcommand.'',
      '''',
      ''    Parameters'',
      ''    ----------'',
      ''    image_path : pathlike'',
      ''        Path to the built container image.'',
      ''    base_image : str'',
      ''        Base image to use for the container which may be any valid'',
      ''        Apptainer/Singularity <BUILD SPEC>.'',
      ''    conda_env : pathlike, optional'',
      ''        Path to a Conda environment.yml file to install and activate in the'',
      ''        container.'']) @ ''    ''\<close>

text \<open>The docstrings of the classes \<open>Info\<close> and \<open>BuilderCLI\<close>.\<close>

definition Info_doc :: string where
  \<open>Info_doc = concat (map (\<lambda>l. l @ [CHR 0x0A])
     ['''',
      ''    Obtain info about the state of all required dependencies for building a container.'',
      '''',
      ''    The "info" subcommand.'']) @ ''    ''\<close>

definition BuilderCLI_doc :: string where
  "BuilderCLI_doc = concat (map (\<lambda>l. l @ [CHR 0x0A])
     ['''',
      ''    Build Apptainer/Singularity containers for HPC systems in user space.'',
      '''',
      ''    The main CLI command.'']) @ ''    ''"

section \<open>Values, paths and the process state\<close>

text \<open>
  A \<open>pathlib.Path\<close> on a POSIX system, after parsing: its root and its components. The
  root is empty for a relative path, \<open>/\<close>, or \<open>//\<close> for a path written with exactly two
  leading slashes, which POSIX keeps apart and \<open>pathlib\<close> preserves. A component is not
  empty, is not \<open>.\<close> and holds no slash. \<open>absolute\<close> is \<open>Path.absolute\<close>: a path with a
  root is returned as it is, any other path is appended to the current working directory,
  which is given by its components \<open>cwd\<close> under the root \<open>/\<close> (as the system reports it).
\<close>

datatype path_root = NoRoot | Slash | DoubleSlash

definition root_str :: "path_root \<Rightarrow> string" where
  "root_str r = (case r of NoRoot \<Rightarrow> [] | Slash \<Rightarrow> ''/'' | DoubleSlash \<Rightarrow> ''//'')"

record path =
  root :: path_root
  components :: "string list"

definition is_absolute :: "path \<Rightarrow> bool" where
  "is_absolute p \<longleftrightarrow> root p \<noteq> NoRoot"

definition absolute :: "string list \<Rightarrow> path \<Rightarrow> path" where
  "absolute cwd p = (if is_absolute p then p else \<lparr>root = Slash, components = cwd @ components p\<rparr>)"

fun str_join :: "string \<Rightarrow> string list \<Rightarrow> string" where
  "str_join sep [] = []"
| "str_join sep [x] = x"
| "str_join sep (x # y # ys) = x @ sep @ str_join sep (y # ys)"

text \<open>\<open>Path.as_posix\<close>: the root, then the components with slashes between them; the
  relative path without components is written as a dot.\<close>

definition as_posix :: "path \<Rightarrow> string" where
  "as_posix p =
     (if root p = NoRoot \<and> components p = [] then ''.''
      else root_str (root p) @ str_join ''/'' (components p))"

text \<open>The values that reach the constructors of the subcommands as keyword arguments.\<close>

datatype pyval = NoneV | StrV string | PathV path

text \<open>
  The calls that \<open>Build.execute\<close> makes into the modules \<open>container\<close> and \<open>pack\<close>, which
  are not part of \<open>cli.py\<close>: the constructor of \<open>Sandbox\<close>, its \<open>__enter__\<close> and
  \<open>__exit__\<close> (the \<open>with\<close> statement), its methods \<open>add_to_env\<close> and \<open>build_image\<close>,
  the constructor of \<open>CondaInstall\<close>, and its methods \<open>run_command\<close> and
  \<open>cleanup_unused_files\<close>.
\<close>

datatype call =
    Sandbox_init pyval
  | Sandbox_enter
  | CondaInstall_init path
  | run_command string
  | add_to_env string
  | cleanup_unused_files
  | build_image path
  | Sandbox_exit

text \<open>
  The two modules are a parameter: \<open>raises w done c\<close> tells whether the call \<open>c\<close>, made
  after the calls \<open>done\<close>, raises, and with which exception; \<open>sandbox_dir\<close> and
  \<open>conda_runtime_bootstrap_script\<close> are the values of the two attributes that
  \<open>Build.execute\<close> reads.
\<close>

record world =
  raises :: "call list \<Rightarrow> call \<Rightarrow> string option"
  sandbox_dir :: path
  conda_runtime_bootstrap_script :: string

text \<open>The state of the process: what was written to standard output, and the calls made.\<close>

record proc =
  stdout :: string
  calls :: "call list"

type_synonym 'a action = "proc \<Rightarrow> (error + 'a) \<times> proc"

definition invoke :: "world \<Rightarrow> call \<Rightarrow> unit action" where
  "invoke w c s =
     (case raises w (calls s) c of
        Some e \<Rightarrow> (Inl (Raised e), s\<lparr>calls := calls s @ [c]\<rparr>)
      | None \<Rightarrow> (Inr (), s\<lparr>calls := calls s @ [c]\<rparr>))"

text \<open>Statements one after the other: the first exception ends the sequence.\<close>

fun sequence :: "unit action list \<Rightarrow> unit action" where
  "sequence [] s = (Inr (), s)"
| "sequence (m # ms) s =
     (case m s of (Inl e, s') \<Rightarrow> (Inl e, s') | (Inr u, s') \<Rightarrow> sequence ms s')"

text \<open>\<open>print(text)\<close> and \<open>file.write(text)\<close> on standard output.\<close>

definition write_stdout :: "string \<Rightarrow> unit action" where
  "write_stdout txt s = (Inr (), s\<lparr>stdout := stdout s @ txt\<rparr>)"

definition print :: "string \<Rightarrow> unit action" where
  "print txt = write_stdout (txt @ [CHR 0x0A])"

section \<open>The subcommand \<open>build\<close>\<close>

record Build =
  image_path :: path
  base_image :: pyval
  conda_env :: "path option"

text \<open>
  \<open>Build.__init__\<close>. The three keyword arguments default to \<open>None\<close>. Only a path has
  the method \<open>absolute\<close>: on \<open>None\<close> and on a string the attribute lookup raises
  \<open>AttributeError\<close>.
\<close>

definition py_absolute :: "string list \<Rightarrow> pyval \<Rightarrow> error + path" where
  "py_absolute cwd v = (case v of PathV p \<Rightarrow> Inr (absolute cwd p) | _ \<Rightarrow> Inl AttributeError)"

definition Build_init :: "string list \<Rightarrow> pyval \<Rightarrow> pyval \<Rightarrow> pyval \<Rightarrow> error + Build" where
  "Build_init cwd image_path_arg base_image_arg conda_env_arg =
     (case py_absolute cwd image_path_arg of
        Inl e \<Rightarrow> Inl e
      | Inr ip \<Rightarrow>
          (if conda_env_arg \<noteq> NoneV then
             (case py_absolute cwd conda_env_arg of
                Inl e \<Rightarrow> Inl e
              | Inr ce \<Rightarrow> Inr \<lparr>image_path = ip, base_image = base_image_arg, conda_env = Some ce\<rparr>)
           else Inr \<lparr>image_path = ip, base_image = base_image_arg, conda_env = None\<rparr>))"

definition conda_env_name :: string where
  "conda_env_name = ''conda_container_env''"

text \<open>The body of the \<open>with\<close> statement of \<open>Build.execute\<close>.\<close>

definition Build_execute_body :: "world \<Rightarrow> Build \<Rightarrow> unit action" where
  "Build_execute_body w self =
     sequence
       ((case conda_env self of
           Some env \<Rightarrow>
             [invoke w (CondaInstall_init (sandbox_dir w)),
              invoke w (run_command
                (''conda env create -f '' @ as_posix env @ '' '' @ ''-n '' @ conda_env_name)),
              invoke w (add_to_env (conda_runtime_bootstrap_script w)),
              invoke w (add_to_env (''conda activate '' @ conda_env_name)),
              invoke w cleanup_unused_files]
         | None \<Rightarrow> []) @
        [invoke w (build_image (image_path self))])"

text \<open>
  \<open>Build.execute\<close>. The \<open>with\<close> statement constructs the sandbox and calls its
  \<open>__enter__\<close>; an exception of either leaves the function at once. After that the body
  runs, and \<open>__exit__\<close> is called whether the body returned or raised. An exception of
  \<open>__exit__\<close> replaces the outcome of the body; otherwise the outcome of the body stands
  (\<open>__exit__\<close> is taken not to swallow exceptions).
\<close>

definition Build_execute :: "world \<Rightarrow> Build \<Rightarrow> unit action" where
  "Build_execute w self s0 =
     (case invoke w (Sandbox_init (base_image self)) s0 of
        (Inl e, s1) \<Rightarrow> (Inl e, s1)
      | (Inr u, s1) \<Rightarrow>
          (case invoke w Sandbox_enter s1 of
             (Inl e, s2) \<Rightarrow> (Inl e, s2)
           | (Inr u, s2) \<Rightarrow>
               (case Build_execute_body w self s2 of
                  (r, s3) \<Rightarrow>
                    (case invoke w Sandbox_exit s3 of
                       (Inl e, s4) \<Rightarrow> (Inl e, s4)
                     | (Inr u, s4) \<Rightarrow> (r, s4)))))"

section \<open>The subcommand \<open>info\<close>\<close>

definition Info_execute :: "unit action" where
  "Info_execute = print ''Sorry, no information about your system is available at this time.''"

section \<open>The command line\<close>

datatype subcommand_cls = Build_cls | Info_cls

definition cls_name :: "subcommand_cls \<Rightarrow> string" where
  "cls_name cls = (case cls of Build_cls \<Rightarrow> ''Build'' | Info_cls \<Rightarrow> ''Info'')"

definition cls_doc :: "subcommand_cls \<Rightarrow> string" where
  "cls_doc cls = (case cls of Build_cls \<Rightarrow> Build_doc | Info_cls \<Rightarrow> Info_doc)"

text \<open>\<open>doc.strip().splitlines()[0]\<close>: the index raises on a docstring without a line.\<close>

definition doc_summary :: "string \<Rightarrow> error + string" where
  "doc_summary doc = (case splitlines (strip doc) of [] \<Rightarrow> Inl IndexError | l # ls \<Rightarrow> Inr l)"

text \<open>
  What \<open>add_argument\<close> is given: the name or flag, the help text, whether the argument
  is required (a positional argument is), and whether its type is \<open>pathlib.Path\<close>.
\<close>

record argument =
  arg_name :: string
  arg_help :: string
  arg_required :: bool
  arg_is_path :: bool

text \<open>
  \<open>Build.add_arguments\<close> and \<open>Info.add_arguments\<close>. The help texts are extracted in
  the order of the three \<open>add_argument\<close> calls; the first \<open>KeyError\<close> leaves the method.
\<close>

definition Build_add_arguments :: "error + argument list" where
  "Build_add_arguments =
     (case extract_help_from_docstring ''image_path'' Build_doc of
        Inl e \<Rightarrow> Inl e
      | Inr h1 \<Rightarrow>
          (case extract_help_from_docstring ''base_image'' Build_doc of
             Inl e \<Rightarrow> Inl e
           | Inr h2 \<Rightarrow>
               (case extract_help_from_docstring ''conda_env'' Build_doc of
                  Inl e \<Rightarrow> Inl e
                | Inr h3 \<Rightarrow>
                    Inr [\<lparr>arg_name = ''image_path'', arg_help = h1,
                           arg_required = True, arg_is_path = True\<rparr>,
                         \<lparr>arg_name = ''--base-image'', arg_help = h2,
                           arg_required = True, arg_is_path = False\<rparr>,
                         \<lparr>arg_name = ''--conda-env'', arg_help = h3,
                           arg_required = False, arg_is_path = True\<rparr>])))"

definition Info_add_arguments :: "error + argument list" where
  "Info_add_arguments = Inr []"

definition add_arguments :: "subcommand_cls \<Rightarrow> error + argument list" where
  "add_arguments cls = (case cls of Build_cls \<Rightarrow> Build_add_arguments | Info_cls \<Rightarrow> Info_add_arguments)"

text \<open>The parser that \<open>BuilderCLI.__init__\<close> sets up, and its sub-parsers.\<close>

record sub_parser =
  sp_name :: string
  sp_help :: string
  sp_description :: string
  sp_arguments :: "argument list"
  sp_subcommand_cls :: subcommand_cls

record parser =
  description :: string
  subparsers :: "sub_parser list"

text \<open>The body of the loop over the subcommand classes, and the loop.\<close>

definition add_subcommand :: "subcommand_cls \<Rightarrow> error + sub_parser" where
  "add_subcommand cls =
     (case doc_summary (cls_doc cls) of
        Inl e \<Rightarrow> Inl e
      | Inr subcommand_doc_summary \<Rightarrow>
          (case add_arguments cls of
             Inl e \<Rightarrow> Inl e
           | Inr args \<Rightarrow>
               Inr \<lparr>sp_name = lower (cls_name cls), sp_help = subcommand_doc_summary,
                    sp_description = subcommand_doc_summary, sp_arguments = args,
                    sp_subcommand_cls = cls\<rparr>))"

fun add_subcommands :: "subcommand_cls list \<Rightarrow> error + sub_parser list" where
  "add_subcommands [] = Inr []"
| "add_subcommands (cls # clss) =
     (case add_subcommand cls of
        Inl e \<Rightarrow> Inl e
      | Inr sp \<Rightarrow>
          (case add_subcommands clss of Inl e \<Rightarrow> Inl e | Inr sps \<Rightarrow> Inr (sp # sps)))"

definition setup_parser :: "error + parser" where
  "setup_parser =
     (case doc_summary BuilderCLI_doc of
        Inl e \<Rightarrow> Inl e
      | Inr builder_cli_doc_summary \<Rightarrow>
          (case add_subcommands [Build_cls, Info_cls] of
             Inl e \<Rightarrow> Inl e
           | Inr sps \<Rightarrow> Inr \<lparr>description = builder_cli_doc_summary, subparsers = sps\<rparr>))"

text \<open>
  The result of \<open>parse_args\<close>: a namespace, which has the attribute \<open>subcommand_cls\<close>
  only if a sub-parser ran (it is a default of the sub-parsers, not of the main parser),
  and the other attributes as \<open>vars\<close> lists them.
\<close>

record namespace =
  ns_subcommand_cls :: "subcommand_cls option"
  ns_vars :: "(string \<times> pyval) list"

datatype parse_outcome = Parsed namespace | Exits string int

text \<open>
  The module \<open>argparse\<close> of the standard library. Two command lines are written out:
  without any argument the main parser, whose sub-parsers are optional, returns the
  empty namespace; on the single argument \<open>-h\<close> or \<open>--help\<close> its help action prints the
  help of the main parser with \<open>print_help\<close> and exits with status 0. The text of the
  help (\<open>format_help\<close>) and the outcome on every other command line (\<open>parse_other\<close>:
  a namespace, or a text on standard output and an exit status) are parameters.
\<close>

record argparse =
  format_help :: "parser \<Rightarrow> string"
  parse_other :: "parser \<Rightarrow> string list \<Rightarrow> parse_outcome"

definition print_help :: "argparse \<Rightarrow> parser \<Rightarrow> unit action" where
  "print_help lib p = write_stdout (format_help lib p)"

definition parse_outcome_of :: "argparse \<Rightarrow> parser \<Rightarrow> string list \<Rightarrow> parse_outcome" where
  "parse_outcome_of lib p argv =
     (if argv = [] then Parsed \<lparr>ns_subcommand_cls = None, ns_vars = []\<rparr>
      else if argv = [''-h''] \<or> argv = [''--help''] then Exits (format_help lib p) 0
      else parse_other lib p argv)"

definition parse_args :: "argparse \<Rightarrow> parser \<Rightarrow> string list \<Rightarrow> namespace action" where
  "parse_args lib p argv s =
     (case parse_outcome_of lib p argv of
        Parsed ns \<Rightarrow> (Inr ns, s)
      | Exits txt status \<Rightarrow> (Inl (SystemExit status), snd (write_stdout txt s)))"

text \<open>
  The object in \<open>self.subcommand\<close>. \<open>NoSubcommand\<close> is the local class of
  \<open>BuilderCLI.__init__\<close>; it keeps the parser of the enclosing call.
\<close>

datatype subcommand = BuildCmd Build | InfoCmd | NoSubcommand parser

text \<open>
  \<open>subcommand_cls(**subcommand_args)\<close>: \<open>Build\<close> takes the three keywords of its
  constructor, each \<open>None\<close> when left out; \<open>Info\<close> has no constructor of its own and takes
  none. Any other keyword is a \<open>TypeError\<close>.
\<close>

definition kwarg :: "(string \<times> pyval) list \<Rightarrow> string \<Rightarrow> pyval" where
  "kwarg kw k = (case map_of kw k of None \<Rightarrow> NoneV | Some v \<Rightarrow> v)"

definition construct :: "string list \<Rightarrow> subcommand_cls \<Rightarrow> (string \<times> pyval) list \<Rightarrow> error + subcommand" where
  "construct cwd cls kw =
     (case cls of
        Build_cls \<Rightarrow>
          (if list_all (\<lambda>k. k \<in> set [''image_path'', ''base_image'', ''conda_env'']) (map fst kw)
           then (case Build_init cwd (kwarg kw ''image_path'') (kwarg kw ''base_image'')
                        (kwarg kw ''conda_env'') of
                   Inl e \<Rightarrow> Inl e
                 | Inr b \<Rightarrow> Inr (BuildCmd b))
           else Inl TypeError)
      | Info_cls \<Rightarrow> (if kw = [] then Inr InfoCmd else Inl TypeError))"

text \<open>
  \<open>BuilderCLI.__init__\<close>, from the command line \<open>argv\<close> to \<open>self.subcommand\<close>. The
  \<open>try\<close> statement covers the read of \<open>self.args.subcommand_cls\<close>, which raises
  \<open>AttributeError\<close> on a namespace without it, and the call of the constructor.
\<close>

definition BuilderCLI_init :: "argparse \<Rightarrow> string list \<Rightarrow> string list \<Rightarrow> subcommand action" where
  "BuilderCLI_init lib cwd argv s =
     (case setup_parser of
        Inl e \<Rightarrow> (Inl e, s)
      | Inr p \<Rightarrow>
          (case parse_args lib p argv s of
             (Inl e, s') \<Rightarrow> (Inl e, s')
           | (Inr args, s') \<Rightarrow>
               (case (case ns_subcommand_cls args of
                        None \<Rightarrow> Inl AttributeError
                      | Some cls \<Rightarrow> construct cwd cls (ns_vars args)) of
                  Inl AttributeError \<Rightarrow> (Inr (NoSubcommand p), s')
                | Inl e \<Rightarrow> (Inl e, s')
                | Inr sc \<Rightarrow> (Inr sc, s'))))"

definition subcommand_execute :: "world \<Rightarrow> argparse \<Rightarrow> subcommand \<Rightarrow> unit action" where
  "subcommand_execute w lib sc =
     (case sc of
        BuildCmd self \<Rightarrow> Build_execute w self
      | InfoCmd \<Rightarrow> Info_execute
      | NoSubcommand p \<Rightarrow> print_help lib p)"

text \<open>The two statements under \<open>if __name__ == "__main__"\<close>.\<close>

definition main :: "world \<Rightarrow> argparse \<Rightarrow> string list \<Rightarrow> string list \<Rightarrow> unit action" where
  "main w lib cwd argv s =
     (case BuilderCLI_init lib cwd argv s of
        (Inl e, s') \<Rightarrow> (Inl e, s')
      | (Inr sc, s') \<Rightarrow> subcommand_execute w lib sc s')"

text \<open>
  The exit status of the interpreter: 0 when the script ends, the status of a
  \<open>SystemExit\<close>, and 1 after any other exception.
\<close>

definition exit_status :: "error + unit \<Rightarrow> int" where
  "exit_status r = (case r of Inr u \<Rightarrow> 0 | Inl (SystemExit status) \<Rightarrow> status | Inl e \<Rightarrow> 1)"

text \<open>
  A line ends a description when it contains \<open>" : "\<close> or is blank: the test of the inner
  \<open>if\<close> statement of \<open>_extract_help_from_docstring\<close>.
\<close>

definition ends_description :: "string \<Rightarrow> bool" where
  "ends_description line \<longleftrightarrow> str_in '' : '' line \<or> strip line = []"

section \<open>Properties of the help extractor\<close>

lemma str_in_iff: "str_in sub s \<longleftrightarrow> (\<exists>p q. s = p @ sub @ q)"
  by (simp add: str_in_def sublist_def)

text \<open>While the argument is not found, lines without the pattern are passed over.\<close>

lemma scan_lines_searching:
  "\<forall>line \<in> set pre. \<not> str_in (arg @ '' : '') line \<Longrightarrow>
   scan_lines arg False arg_desc (pre @ lines) = scan_lines arg False arg_desc lines"
  by (induction pre) simp_all

lemma scan_lines_absent:
  "\<forall>line \<in> set lines. \<not> str_in (arg @ '' : '') line \<Longrightarrow>
   scan_lines arg False arg_desc lines = Inl (KeyError arg)"
  by (induction lines) simp_all

lemma scan_lines_dropWhile:
  "scan_lines arg False arg_desc lines =
     (case dropWhile (\<lambda>line. \<not> str_in (arg @ '' : '') line) lines of
        [] \<Rightarrow> Inl (KeyError arg)
      | start # rest \<Rightarrow> scan_lines arg True arg_desc rest)"
  by (induction lines) simp_all

text \<open>Once the argument is found, each line that does not end the description is kept,
  followed by one space.\<close>

lemma scan_lines_collecting:
  "\<forall>line \<in> set descs. \<not> ends_description line \<Longrightarrow>
   scan_lines arg True arg_desc (descs @ lines) =
     scan_lines arg True (arg_desc @ concat (map (\<lambda>line. [line, '' '']) descs)) lines"
  by (induction descs arbitrary: arg_desc) (simp_all add: ends_description_def)

lemma scan_lines_unterminated:
  "\<forall>line \<in> set descs. \<not> ends_description line \<Longrightarrow>
   scan_lines arg True arg_desc descs = Inl (KeyError arg)"
  by (induction descs arbitrary: arg_desc) (simp_all add: ends_description_def)

lemma concat_line_space:
  "concat (concat (map (\<lambda>line. [line, '' '']) descs)) = concat (map (\<lambda>line. line @ '' '') descs)"
  by (induction descs) simp_all

text \<open>
  What the extractor returns on a docstring of the documented shape: lines without the
  pattern, the line with the pattern, the description lines, and a line that ends the
  description. Every description line is followed by a space, also the last one.
\<close>

lemma extract_help_described:
  assumes "splitlines docstring = pre @ start # descs @ stop # rest"
    and "\<forall>line \<in> set pre. \<not> str_in (arg @ '' : '') line"
    and "str_in (arg @ '' : '') start"
    and "\<forall>line \<in> set descs. \<not> ends_description line"
    and "ends_description stop"
  shows "extract_help_from_docstring arg docstring =
           Inr (rstrip_dot (lower (lstrip (concat (map (\<lambda>line. line @ '' '') descs)))))"
proof -
  have "extract_help_from_docstring arg docstring = scan_lines arg False [] (start # descs @ stop # rest)"
    using assms(1,2) by (simp add: extract_help_from_docstring_def scan_lines_searching)
  also have "\<dots> = scan_lines arg True [] (descs @ stop # rest)"
    using assms(3) by simp
  also have "\<dots> = scan_lines arg True (concat (map (\<lambda>line. [line, '' '']) descs)) (stop # rest)"
    using assms(4) scan_lines_collecting [of descs arg "[]" "stop # rest"] by simp
  also have "\<dots> = Inr (the_description (concat (map (\<lambda>line. [line, '' '']) descs)))"
    using assms(5) by (simp add: ends_description_def)
  finally show ?thesis
    by (simp add: the_description_def concat_line_space)
qed

text \<open>
  The same docstring cut off after the description lines: the loop ends without the
  \<open>return\<close>, and the \<open>else\<close> clause of the \<open>for\<close> statement raises.
\<close>

lemma extract_help_unterminated:
  assumes "splitlines docstring = pre @ start # descs"
    and "\<forall>line \<in> set pre. \<not> str_in (arg @ '' : '') line"
    and "str_in (arg @ '' : '') start"
    and "\<forall>line \<in> set descs. \<not> ends_description line"
  shows "extract_help_from_docstring arg docstring = Inl (KeyError arg)"
proof -
  have "extract_help_from_docstring arg docstring = scan_lines arg False [] (start # descs)"
    using assms(1,2) by (simp add: extract_help_from_docstring_def scan_lines_searching)
  also have "\<dots> = scan_lines arg True [] descs"
    using assms(3) by simp
  also have "\<dots> = Inl (KeyError arg)"
    using assms(4) by (rule scan_lines_unterminated)
  finally show ?thesis .
qed

text \<open>A line that is not blank has a character that is not white space.\<close>

lemma not_blank_has_char:
  assumes "strip line \<noteq> []"
  shows "\<exists>c \<in> set line. \<not> is_space c"
proof (rule ccontr)
  assume "\<not> (\<exists>c \<in> set line. \<not> is_space c)"
  then have "\<forall>c \<in> set line. is_space c" by blast
  then have blank: "dropWhile is_space line = []" by (induction line) simp_all
  have "strip line = []" unfolding strip_def blank by simp
  with assms show False by simp
qed

lemma rstrip_dot_space: "rstrip_dot (s @ '' '') = s @ '' ''"
  by (simp add: rstrip_dot_def)

lemma lower_space: "lower (s @ '' '') = lower s @ '' ''"
  by (simp add: lower_def lower_char_def)

lemma lstrip_keeps_tail:
  "\<exists>c \<in> set s. \<not> is_space c \<Longrightarrow> lstrip (s @ t) = lstrip s @ t"
  by (auto simp: lstrip_def)

text \<open>
  With at least one description line, the returned text ends with the space that follows
  the last description line: \<open>rstrip(".")\<close> removes nothing, and a full stop at the end of
  the description stays.
\<close>

lemma extract_help_described_ends_with_space:
  assumes "splitlines docstring = pre @ start # descs @ stop # rest"
    and "\<forall>line \<in> set pre. \<not> str_in (arg @ '' : '') line"
    and "str_in (arg @ '' : '') start"
    and "\<forall>line \<in> set descs. \<not> ends_description line"
    and "ends_description stop"
    and "descs \<noteq> []"
  shows "extract_help_from_docstring arg docstring =
           Inr (lower (lstrip (concat (map (\<lambda>line. line @ '' '') (butlast descs)) @ last descs)) @ '' '')"
proof -
  let ?text = "concat (map (\<lambda>line. line @ '' '') (butlast descs)) @ last descs"
  have split: "concat (map (\<lambda>line. line @ '' '') descs) = ?text @ '' ''"
  proof -
    have "descs = butlast descs @ [last descs]" using assms(6) by simp
    then have "concat (map (\<lambda>line. line @ '' '') descs) =
        concat (map (\<lambda>line. line @ '' '') (butlast descs @ [last descs]))" by simp
    then show ?thesis by simp
  qed
  have "last descs \<in> set descs" using assms(6) by simp
  with assms(4) have "strip (last descs) \<noteq> []" by (simp add: ends_description_def)
  then have "\<exists>c \<in> set ?text. \<not> is_space c"
    using not_blank_has_char [of "last descs"] by auto
  then have "lstrip (?text @ '' '') = lstrip ?text @ '' ''"
    by (rule lstrip_keeps_tail)
  then show ?thesis
    using extract_help_described [OF assms(1-5)]
    by (simp add: split lower_space rstrip_dot_space)
qed

text \<open>
  Claim C1, at the docstring of \<open>Build\<close> and the argument \<open>image_path\<close>: the description
  is the one line \<open>Path to the built container image.\<close>, and the claim's result is that
  line in lower case without the full stop. The extractor returns the line in lower case
  with the full stop and a space after it: the space that follows every description line
  is still there when \<open>rstrip(".")\<close> runs, so no full stop is ever at the end.
\<close>

theorem extract_help_image_path_keeps_full_stop:
  "extract_help_from_docstring ''image_path'' Build_doc = Inr ''path to the built container image. ''
   \<and> extract_help_from_docstring ''image_path'' Build_doc \<noteq> Inr ''path to the built container image''"
  by code_simp

text \<open>
  Claim C2, at a docstring that ends with the description of the requested argument, with
  no line after it: the claim's result is the description, \<open>the value\<close>. The extractor
  raises \<open>KeyError\<close>, as it does for an argument that the docstring does not have.
\<close>

theorem extract_help_last_entry_raises:
  "extract_help_from_docstring ''x''
     (''Parameters'' @ [CHR 0x0A] @ ''----------'' @ [CHR 0x0A] @ ''x : int'' @ [CHR 0x0A] @
      ''    The value.'') = Inl (KeyError ''x'')"
  by code_simp

text \<open>
  Claim C3: if no line of the docstring contains the pattern \<open>"<name> : "\<close>, the extractor
  raises \<open>KeyError\<close> for that name, and returns no value.
\<close>

theorem extract_help_absent:
  "\<forall>line \<in> set (splitlines docstring). \<not> str_in (arg @ '' : '') line \<Longrightarrow>
   extract_help_from_docstring arg docstring = Inl (KeyError arg)"
  by (simp add: extract_help_from_docstring_def scan_lines_absent)

theorem extract_help_absent_witness:
  "list_all (\<lambda>line. \<not> str_in (''verbose'' @ '' : '') line) (splitlines Build_doc) \<and>
   extract_help_from_docstring ''verbose'' Build_doc = Inl (KeyError ''verbose'')"
proof -
  have h: "list_all (\<lambda>line. \<not> str_in (''verbose'' @ '' : '') line) (splitlines Build_doc)"
    by code_simp
  then have "\<forall>line \<in> set (splitlines Build_doc). \<not> str_in (''verbose'' @ '' : '') line"
    by (simp add: list_all_iff)
  then have "extract_help_from_docstring ''verbose'' Build_doc = Inl (KeyError ''verbose'')"
    by (rule extract_help_absent)
  with h show ?thesis by simp
qed

text \<open>
  Claim C9: the name is matched by a literal substring test and by nothing else, seen from
  what the extractor returns. If \<open>"<name> : "\<close> occurs in no line as a contiguous block,
  no line is taken as the start, whatever else the lines hold: \<open>KeyError\<close> is raised. If
  the block occurs in a line \<open>start\<close> and in no line before it, that line is taken as
  the start: the text returned is made of the lines that follow it, up to the line that
  ends the description.
\<close>

theorem start_is_literal_substring:
  "((\<forall>line \<in> set (splitlines docstring). \<nexists>p q. line = p @ (arg @ '' : '') @ q) \<longrightarrow>
      extract_help_from_docstring arg docstring = Inl (KeyError arg))
   \<and> (splitlines docstring = pre @ start # descs @ stop # rest
      \<and> (\<forall>line \<in> set pre. \<nexists>p q. line = p @ (arg @ '' : '') @ q)
      \<and> (\<exists>p q. start = p @ (arg @ '' : '') @ q)
      \<and> (\<forall>line \<in> set descs. \<not> ends_description line)
      \<and> ends_description stop \<longrightarrow>
      extract_help_from_docstring arg docstring =
        Inr (rstrip_dot (lower (lstrip (concat (map (\<lambda>line. line @ '' '') descs))))))"
proof (intro conjI impI)
  assume "\<forall>line \<in> set (splitlines docstring). \<nexists>p q. line = p @ (arg @ '' : '') @ q"
  then have "\<forall>line \<in> set (splitlines docstring). \<not> str_in (arg @ '' : '') line"
    by (simp add: str_in_iff)
  then show "extract_help_from_docstring arg docstring = Inl (KeyError arg)"
    by (simp add: extract_help_from_docstring_def scan_lines_absent)
next
  assume shape: "splitlines docstring = pre @ start # descs @ stop # rest
      \<and> (\<forall>line \<in> set pre. \<nexists>p q. line = p @ (arg @ '' : '') @ q)
      \<and> (\<exists>p q. start = p @ (arg @ '' : '') @ q)
      \<and> (\<forall>line \<in> set descs. \<not> ends_description line)
      \<and> ends_description stop"
  then have "splitlines docstring = pre @ start # descs @ stop # rest"
    and "\<forall>line \<in> set pre. \<not> str_in (arg @ '' : '') line"
    and "str_in (arg @ '' : '') start"
    and "\<forall>line \<in> set descs. \<not> ends_description line"
    and "ends_description stop"
    by (simp_all add: str_in_iff)
  then show "extract_help_from_docstring arg docstring =
        Inr (rstrip_dot (lower (lstrip (concat (map (\<lambda>line. line @ '' '') descs)))))"
    by (rule extract_help_described)
qed

text \<open>
  At the docstring of \<open>Build\<close>: \<open>base_image\<close> is found in the line \<open>base_image : str\<close>,
  and its two description lines are returned. The name \<open>conda\<close> is the beginning of a
  documented name, but \<open>"conda : "\<close> occurs in no line, and the extractor raises.
\<close>

theorem start_is_literal_substring_witness:
  "extract_help_from_docstring ''base_image'' Build_doc =
     Inr ''base image to use for the container which may be any valid         apptainer/singularity <build spec>. ''
   \<and> extract_help_from_docstring ''conda'' Build_doc = Inl (KeyError ''conda'')"
proof -
  let ?pre = "['''', ''    Build a container.'', '''',
      ''    The '' @ [CHR 0x22] @ ''build'' @ [CHR 0x22] @ '' subcommand.'', '''',
      ''    Parameters'', ''    ----------'', ''    image_path : pathlike'',
      ''        Path to the built container image.'']"
  let ?start = "''    base_image : str''"
  let ?descs = "[''        Base image to use for the container which may be any valid'',
      ''        Apptainer/Singularity <BUILD SPEC>.'']"
  let ?stop = "''    conda_env : pathlike, optional''"
  let ?rest = "[''        Path to a Conda environment.yml file to install and activate in the'',
      ''        container.'', ''    '']"
  have lines: "splitlines Build_doc = ?pre @ ?start # ?descs @ ?stop # ?rest"
    by code_simp
  have "list_all (\<lambda>line. \<not> str_in (''base_image'' @ '' : '') line) ?pre"
    by code_simp
  then have pre: "\<forall>line \<in> set ?pre. \<nexists>p q. line = p @ (''base_image'' @ '' : '') @ q"
    by (simp only: list_all_iff str_in_iff)
  have "str_in (''base_image'' @ '' : '') ?start"
    by code_simp
  then have start: "\<exists>p q. ?start = p @ (''base_image'' @ '' : '') @ q"
    by (simp only: str_in_iff)
  have "list_all (\<lambda>line. \<not> ends_description line) ?descs"
    by code_simp
  then have descs: "\<forall>line \<in> set ?descs. \<not> ends_description line"
    by (simp only: list_all_iff)
  have stop: "ends_description ?stop"
    by code_simp
  have lowered: "rstrip_dot (lower (lstrip (concat (map (\<lambda>line. line @ '' '') ?descs)))) =
      ''base image to use for the container which may be any valid         apptainer/singularity <build spec>. ''"
    by code_simp
  have found: "extract_help_from_docstring ''base_image'' Build_doc =
      Inr (rstrip_dot (lower (lstrip (concat (map (\<lambda>line. line @ '' '') ?descs)))))"
    using start_is_literal_substring [of Build_doc "''base_image''" ?pre ?start ?descs ?stop ?rest]
      lines pre start descs stop
    by blast
  have "list_all (\<lambda>line. \<not> str_in (''conda'' @ '' : '') line) (splitlines Build_doc)"
    by code_simp
  then have "\<forall>line \<in> set (splitlines Build_doc). \<nexists>p q. line = p @ (''conda'' @ '' : '') @ q"
    by (simp only: list_all_iff str_in_iff)
  then have absent: "extract_help_from_docstring ''conda'' Build_doc = Inl (KeyError ''conda'')"
    using start_is_literal_substring [of Build_doc "''conda''"] by blast
  show ?thesis
    using found absent by (simp only: lowered)
qed

section \<open>Properties of the subcommand \<open>build\<close>\<close>

text \<open>
  Calls into \<open>container\<close> and \<open>pack\<close> one after the other: the calls made are a
  beginning of the list, the whole list when no call raised, and never none.
\<close>

lemma sequence_invoke:
  "\<exists>done. snd (sequence (map (invoke w) cs) s) = s\<lparr>calls := calls s @ done\<rparr>
     \<and> prefix done cs
     \<and> (cs \<noteq> [] \<longrightarrow> done \<noteq> [])
     \<and> (fst (sequence (map (invoke w) cs) s) = Inr () \<longrightarrow> done = cs)"
proof (induction cs arbitrary: s)
  case Nil
  show ?case by (rule exI [of _ "[]"]) simp
next
  case (Cons c cs)
  let ?s' = "s\<lparr>calls := calls s @ [c]\<rparr>"
  show ?case
  proof (cases "raises w (calls s) c")
    case (Some e)
    then have "sequence (map (invoke w) (c # cs)) s = (Inl (Raised e), ?s')"
      by (simp add: invoke_def)
    then show ?thesis by (intro exI [of _ "[c]"]) (simp del: sequence.simps list.map)
  next
    case None
    then have step: "sequence (map (invoke w) (c # cs)) s = sequence (map (invoke w) cs) ?s'"
      by (simp add: invoke_def)
    from Cons.IH [of ?s'] obtain rest where
      r: "snd (sequence (map (invoke w) cs) ?s') = ?s'\<lparr>calls := calls ?s' @ rest\<rparr>"
         "prefix rest cs"
         "fst (sequence (map (invoke w) cs) ?s') = Inr () \<longrightarrow> rest = cs"
      by blast
    show ?thesis
      unfolding step using r by (intro exI [of _ "c # rest"]) simp
  qed
qed

lemma sequence_invoke_quiet:
  "\<forall>done c. raises w done c = None \<Longrightarrow>
   sequence (map (invoke w) cs) s = (Inr (), s\<lparr>calls := calls s @ cs\<rparr>)"
  by (induction cs arbitrary: s) (simp_all add: invoke_def)

text \<open>The \<open>with\<close> statement once the sandbox is entered: the body, then \<open>__exit__\<close>.\<close>

lemma Build_execute_entered:
  assumes "raises w (calls s) (Sandbox_init (base_image self)) = None"
    and "raises w (calls s @ [Sandbox_init (base_image self)]) Sandbox_enter = None"
  shows "snd (Build_execute w self s) =
           (snd (Build_execute_body w self
                   (s\<lparr>calls := calls s @ [Sandbox_init (base_image self), Sandbox_enter]\<rparr>)))
             \<lparr>calls := calls (snd (Build_execute_body w self
                   (s\<lparr>calls := calls s @ [Sandbox_init (base_image self), Sandbox_enter]\<rparr>))) @ [Sandbox_exit]\<rparr>"
    and "fst (Build_execute w self s) = Inr () \<Longrightarrow>
           fst (Build_execute_body w self
                  (s\<lparr>calls := calls s @ [Sandbox_init (base_image self), Sandbox_enter]\<rparr>)) = Inr ()"
proof -
  let ?s2 = "s\<lparr>calls := calls s @ [Sandbox_init (base_image self), Sandbox_enter]\<rparr>"
  obtain r s3 where body: "Build_execute_body w self ?s2 = (r, s3)"
    by (cases "Build_execute_body w self ?s2")
  have unfolded: "Build_execute w self s =
      (case invoke w Sandbox_exit s3 of (Inl e, s4) \<Rightarrow> (Inl e, s4) | (Inr u, s4) \<Rightarrow> (r, s4))"
    using assms body by (simp add: Build_execute_def invoke_def)
  show "snd (Build_execute w self s) =
           (snd (Build_execute_body w self ?s2))
             \<lparr>calls := calls (snd (Build_execute_body w self ?s2)) @ [Sandbox_exit]\<rparr>"
    unfolding unfolded body
    by (cases "raises w (calls s3) Sandbox_exit") (simp_all add: invoke_def)
  show "fst (Build_execute w self s) = Inr () \<Longrightarrow> fst (Build_execute_body w self ?s2) = Inr ()"
    unfolding unfolded body
    by (cases "raises w (calls s3) Sandbox_exit") (simp_all add: invoke_def)
qed

lemma Build_execute_not_entered:
  "raises w (calls s) (Sandbox_init (base_image self)) = Some e \<Longrightarrow>
     Build_execute w self s = (Inl (Raised e), s\<lparr>calls := calls s @ [Sandbox_init (base_image self)]\<rparr>)"
  "raises w (calls s) (Sandbox_init (base_image self)) = None \<Longrightarrow>
   raises w (calls s @ [Sandbox_init (base_image self)]) Sandbox_enter = Some e \<Longrightarrow>
     Build_execute w self s =
       (Inl (Raised e), s\<lparr>calls := calls s @ [Sandbox_init (base_image self), Sandbox_enter]\<rparr>)"
  by (simp_all add: Build_execute_def invoke_def)

lemma Build_execute_body_Some:
  "conda_env self = Some env \<Longrightarrow>
   Build_execute_body w self =
     sequence (map (invoke w)
       [CondaInstall_init (sandbox_dir w),
        run_command (''conda env create -f '' @ as_posix env @ '' -n conda_container_env''),
        add_to_env (conda_runtime_bootstrap_script w),
        add_to_env ''conda activate conda_container_env'',
        cleanup_unused_files,
        build_image (image_path self)])"
  by (simp add: Build_execute_body_def conda_env_name_def)

lemma Build_execute_body_None:
  "conda_env self = None \<Longrightarrow>
   Build_execute_body w self = sequence (map (invoke w) [build_image (image_path self)])"
  by (simp add: Build_execute_body_def)

lemma Build_execute_quiet:
  assumes "\<forall>done c. raises w done c = None"
    and "Build_execute_body w self = sequence (map (invoke w) body)"
  shows "Build_execute w self s =
     (Inr (), s\<lparr>calls := calls s @ [Sandbox_init (base_image self), Sandbox_enter] @ body @ [Sandbox_exit]\<rparr>)"
  using assms(1) by (simp add: Build_execute_def assms(2) sequence_invoke_quiet invoke_def)

text \<open>
  Claim C4, as amended: with a Conda environment, \<open>Build.execute\<close> creates the sandbox
  from \<open>base_image\<close>, runs one \<open>run_command\<close> with
  \<open>conda env create -f <conda_env> -n conda_container_env\<close>, calls \<open>add_to_env\<close> twice (the
  bootstrap script, then \<open>conda activate conda_container_env\<close>), \<open>cleanup_unused_files\<close> once
  and \<open>build_image(image_path)\<close> once, in this order; and once the sandbox is created and
  entered, it is released exactly once on every way out, also when a later step raises.
  When the creation itself raises (the constructor or \<open>__enter__\<close>), the exception leaves
  \<open>execute\<close> and nothing is released. In the model: when no call raises, the calls are
  exactly this list, with the construction of \<open>CondaInstall\<close> before \<open>run_command\<close> and
  \<open>__exit__\<close> at the end; whenever \<open>execute\<close> returns, the calls were this list; once the
  sandbox is entered, whatever raises afterwards, the calls are a beginning of the body
  followed by exactly one \<open>__exit__\<close>, which is the last call; and when the constructor
  or \<open>__enter__\<close> raises, it is the last call and its exception is the outcome.
\<close>

theorem Build_execute_with_conda_env:
  assumes "conda_env self = Some env"
  shows
    "((\<forall>done c. raises w done c = None) \<longrightarrow>
        Build_execute w self s =
          (Inr (), s\<lparr>calls := calls s @
             [Sandbox_init (base_image self), Sandbox_enter,
              CondaInstall_init (sandbox_dir w),
              run_command (''conda env create -f '' @ as_posix env @ '' -n conda_container_env''),
              add_to_env (conda_runtime_bootstrap_script w),
              add_to_env ''conda activate conda_container_env'',
              cleanup_unused_files,
              build_image (image_path self),
              Sandbox_exit]\<rparr>))
     \<and> (fst (Build_execute w self s) = Inr () \<longrightarrow>
        calls (snd (Build_execute w self s)) = calls s @
             [Sandbox_init (base_image self), Sandbox_enter,
              CondaInstall_init (sandbox_dir w),
              run_command (''conda env create -f '' @ as_posix env @ '' -n conda_container_env''),
              add_to_env (conda_runtime_bootstrap_script w),
              add_to_env ''conda activate conda_container_env'',
              cleanup_unused_files,
              build_image (image_path self),
              Sandbox_exit])
     \<and> (raises w (calls s) (Sandbox_init (base_image self)) = None \<and>
        raises w (calls s @ [Sandbox_init (base_image self)]) Sandbox_enter = None \<longrightarrow>
        (\<exists>body. body \<noteq> [] \<and>
           prefix body
             [CondaInstall_init (sandbox_dir w),
              run_command (''conda env create -f '' @ as_posix env @ '' -n conda_container_env''),
              add_to_env (conda_runtime_bootstrap_script w),
              add_to_env ''conda activate conda_container_env'',
              cleanup_unused_files,
              build_image (image_path self)] \<and>
           calls (snd (Build_execute w self s)) =
             calls s @ [Sandbox_init (base_image self), Sandbox_enter] @ body @ [Sandbox_exit]))
     \<and> (\<forall>e. raises w (calls s) (Sandbox_init (base_image self)) = Some e \<longrightarrow>
        Build_execute w self s =
          (Inl (Raised e), s\<lparr>calls := calls s @ [Sandbox_init (base_image self)]\<rparr>))
     \<and> (\<forall>e. raises w (calls s) (Sandbox_init (base_image self)) = None \<and>
        raises w (calls s @ [Sandbox_init (base_image self)]) Sandbox_enter = Some e \<longrightarrow>
        Build_execute w self s =
          (Inl (Raised e),
           s\<lparr>calls := calls s @ [Sandbox_init (base_image self), Sandbox_enter]\<rparr>))"
proof -
  let ?body = "[CondaInstall_init (sandbox_dir w),
              run_command (''conda env create -f '' @ as_posix env @ '' -n conda_container_env''),
              add_to_env (conda_runtime_bootstrap_script w),
              add_to_env ''conda activate conda_container_env'',
              cleanup_unused_files,
              build_image (image_path self)]"
  let ?s2 = "s\<lparr>calls := calls s @ [Sandbox_init (base_image self), Sandbox_enter]\<rparr>"
  have body: "Build_execute_body w self = sequence (map (invoke w) ?body)"
    using assms by (rule Build_execute_body_Some)
  have quiet: "Build_execute w self s =
      (Inr (), s\<lparr>calls := calls s @ [Sandbox_init (base_image self), Sandbox_enter] @ ?body @ [Sandbox_exit]\<rparr>)"
    if "\<forall>done c. raises w done c = None"
    using that body by (rule Build_execute_quiet)
  have entered: "\<exists>done. done \<noteq> [] \<and> prefix done ?body \<and>
      calls (snd (Build_execute w self s)) =
        calls s @ [Sandbox_init (base_image self), Sandbox_enter] @ done @ [Sandbox_exit] \<and>
      (fst (Build_execute w self s) = Inr () \<longrightarrow> done = ?body)"
    if acquired: "raises w (calls s) (Sandbox_init (base_image self)) = None"
      "raises w (calls s @ [Sandbox_init (base_image self)]) Sandbox_enter = None"
  proof -
    from sequence_invoke [of w ?body ?s2] obtain done' where d:
      "snd (sequence (map (invoke w) ?body) ?s2) = ?s2\<lparr>calls := calls ?s2 @ done'\<rparr>"
      "prefix done' ?body" "done' \<noteq> []"
      "fst (sequence (map (invoke w) ?body) ?s2) = Inr () \<longrightarrow> done' = ?body"
      by blast
    have "calls (snd (Build_execute w self s)) =
        calls s @ [Sandbox_init (base_image self), Sandbox_enter] @ done' @ [Sandbox_exit]"
      using Build_execute_entered(1) [OF acquired] d(1) by (simp add: body)
    moreover have "fst (Build_execute w self s) = Inr () \<longrightarrow> done' = ?body"
      using Build_execute_entered(2) [OF acquired] d(4) by (simp add: body)
    ultimately show ?thesis using d(2,3) by blast
  qed
  have returned: "calls (snd (Build_execute w self s)) =
      calls s @ [Sandbox_init (base_image self), Sandbox_enter] @ ?body @ [Sandbox_exit]"
    if ok: "fst (Build_execute w self s) = Inr ()"
  proof (cases "raises w (calls s) (Sandbox_init (base_image self))")
    case (Some e)
    with ok show ?thesis by (simp add: Build_execute_not_entered(1))
  next
    case None
    show ?thesis
    proof (cases "raises w (calls s @ [Sandbox_init (base_image self)]) Sandbox_enter")
      case (Some e)
      with None ok show ?thesis by (simp add: Build_execute_not_entered(2))
    next
      case None': None
      from entered [OF None None'] ok show ?thesis by auto
    qed
  qed
  have not_created: "Build_execute w self s =
      (Inl (Raised e), s\<lparr>calls := calls s @ [Sandbox_init (base_image self)]\<rparr>)"
    if "raises w (calls s) (Sandbox_init (base_image self)) = Some e" for e
    using that by (rule Build_execute_not_entered(1))
  have not_entered: "Build_execute w self s =
      (Inl (Raised e), s\<lparr>calls := calls s @ [Sandbox_init (base_image self), Sandbox_enter]\<rparr>)"
    if "raises w (calls s) (Sandbox_init (base_image self)) = None"
      "raises w (calls s @ [Sandbox_init (base_image self)]) Sandbox_enter = Some e" for e
    using that by (rule Build_execute_not_entered(2))
  have run: "((\<forall>done c. raises w done c = None) \<longrightarrow>
        Build_execute w self s =
          (Inr (), s\<lparr>calls := calls s @
             [Sandbox_init (base_image self), Sandbox_enter] @ ?body @ [Sandbox_exit]\<rparr>))
     \<and> (fst (Build_execute w self s) = Inr () \<longrightarrow>
        calls (snd (Build_execute w self s)) = calls s @
             [Sandbox_init (base_image self), Sandbox_enter] @ ?body @ [Sandbox_exit])
     \<and> (raises w (calls s) (Sandbox_init (base_image self)) = None \<and>
        raises w (calls s @ [Sandbox_init (base_image self)]) Sandbox_enter = None \<longrightarrow>
        (\<exists>body. body \<noteq> [] \<and> prefix body ?body \<and>
           calls (snd (Build_execute w self s)) =
             calls s @ [Sandbox_init (base_image self), Sandbox_enter] @ body @ [Sandbox_exit]))"
    using quiet returned entered by auto
  from run not_created not_entered show ?thesis
    by simp
qed

theorem Build_execute_with_conda_env_witness:
  "Build_execute
     \<lparr>raises = (\<lambda>done c. None),
      sandbox_dir = \<lparr>root = Slash, components = [''tmp'', ''sandbox'']\<rparr>,
      conda_runtime_bootstrap_script = ''/opt/conda/bootstrap.sh''\<rparr>
     \<lparr>image_path = \<lparr>root = Slash, components = [''home'', ''u'', ''img.sif'']\<rparr>,
      base_image = StrV ''docker://ubuntu:22.04'',
      conda_env = Some \<lparr>root = DoubleSlash, components = [''srv'', ''env.yml'']\<rparr>\<rparr>
     \<lparr>stdout = [], calls = []\<rparr> =
   (Inr (),
    \<lparr>stdout = [],
     calls =
       [Sandbox_init (StrV ''docker://ubuntu:22.04''), Sandbox_enter,
        CondaInstall_init \<lparr>root = Slash, components = [''tmp'', ''sandbox'']\<rparr>,
        run_command ''conda env create -f //srv/env.yml -n conda_container_env'',
        add_to_env ''/opt/conda/bootstrap.sh'',
        add_to_env ''conda activate conda_container_env'',
        cleanup_unused_files,
        build_image \<lparr>root = Slash, components = [''home'', ''u'', ''img.sif'']\<rparr>,
        Sandbox_exit]\<rparr>)
   \<and> last (calls (snd (Build_execute
     \<lparr>raises = (\<lambda>done c. if c = cleanup_unused_files then Some ''OSError'' else None),
      sandbox_dir = \<lparr>root = Slash, components = [''tmp'', ''sandbox'']\<rparr>,
      conda_runtime_bootstrap_script = ''/opt/conda/bootstrap.sh''\<rparr>
     \<lparr>image_path = \<lparr>root = Slash, components = [''home'', ''u'', ''img.sif'']\<rparr>,
      base_image = StrV ''docker://ubuntu:22.04'',
      conda_env = Some \<lparr>root = DoubleSlash, components = [''srv'', ''env.yml'']\<rparr>\<rparr>
     \<lparr>stdout = [], calls = []\<rparr>))) = Sandbox_exit
   \<and> Build_execute
     \<lparr>raises = (\<lambda>done c. if c = Sandbox_init (StrV ''docker://ubuntu:22.04'')
                          then Some ''FileNotFoundError'' else None),
      sandbox_dir = \<lparr>root = Slash, components = [''tmp'', ''sandbox'']\<rparr>,
      conda_runtime_bootstrap_script = ''/opt/conda/bootstrap.sh''\<rparr>
     \<lparr>image_path = \<lparr>root = Slash, components = [''home'', ''u'', ''img.sif'']\<rparr>,
      base_image = StrV ''docker://ubuntu:22.04'',
      conda_env = Some \<lparr>root = DoubleSlash, components = [''srv'', ''env.yml'']\<rparr>\<rparr>
     \<lparr>stdout = [], calls = []\<rparr> =
   (Inl (Raised ''FileNotFoundError''),
    \<lparr>stdout = [], calls = [Sandbox_init (StrV ''docker://ubuntu:22.04'')]\<rparr>)"
proof -
  let ?self = "\<lparr>image_path = \<lparr>root = Slash, components = [''home'', ''u'', ''img.sif'']\<rparr>,
      base_image = StrV ''docker://ubuntu:22.04'',
      conda_env = Some \<lparr>root = DoubleSlash, components = [''srv'', ''env.yml'']\<rparr>\<rparr>"
  let ?env = "\<lparr>root = DoubleSlash, components = [''srv'', ''env.yml'']\<rparr>"
  let ?quiet = "\<lparr>raises = (\<lambda>done c. None),
      sandbox_dir = \<lparr>root = Slash, components = [''tmp'', ''sandbox'']\<rparr>,
      conda_runtime_bootstrap_script = ''/opt/conda/bootstrap.sh''\<rparr>"
  let ?failing = "\<lparr>raises = (\<lambda>done c. if c = cleanup_unused_files then Some ''OSError'' else None),
      sandbox_dir = \<lparr>root = Slash, components = [''tmp'', ''sandbox'']\<rparr>,
      conda_runtime_bootstrap_script = ''/opt/conda/bootstrap.sh''\<rparr>"
  let ?refusing = "\<lparr>raises = (\<lambda>done c. if c = Sandbox_init (StrV ''docker://ubuntu:22.04'')
                          then Some ''FileNotFoundError'' else None),
      sandbox_dir = \<lparr>root = Slash, components = [''tmp'', ''sandbox'']\<rparr>,
      conda_runtime_bootstrap_script = ''/opt/conda/bootstrap.sh''\<rparr>"
  let ?s = "\<lparr>stdout = [], calls = []\<rparr>"
  have env: "conda_env ?self = Some ?env" by simp
  have "Build_execute ?quiet ?self ?s = (Inr (), \<lparr>stdout = [],
     calls =
       [Sandbox_init (StrV ''docker://ubuntu:22.04''), Sandbox_enter,
        CondaInstall_init \<lparr>root = Slash, components = [''tmp'', ''sandbox'']\<rparr>,
        run_command ''conda env create -f //srv/env.yml -n conda_container_env'',
        add_to_env ''/opt/conda/bootstrap.sh'',
        add_to_env ''conda activate conda_container_env'',
        cleanup_unused_files,
        build_image \<lparr>root = Slash, components = [''home'', ''u'', ''img.sif'']\<rparr>,
        Sandbox_exit]\<rparr>)"
    using Build_execute_with_conda_env [OF env, of ?quiet ?s]
    by (simp add: as_posix_def root_str_def)
  moreover have "last (calls (snd (Build_execute ?failing ?self ?s))) = Sandbox_exit"
  proof -
    from Build_execute_with_conda_env [OF env, of ?failing ?s]
    obtain body where
      "calls (snd (Build_execute ?failing ?self ?s)) =
         calls ?s @ [Sandbox_init (base_image ?self), Sandbox_enter] @ body @ [Sandbox_exit]"
      by auto
    then show ?thesis by simp
  qed
  moreover have "Build_execute ?refusing ?self ?s =
      (Inl (Raised ''FileNotFoundError''),
       \<lparr>stdout = [], calls = [Sandbox_init (StrV ''docker://ubuntu:22.04'')]\<rparr>)"
    using Build_execute_with_conda_env [OF env, of ?refusing ?s] by simp
  ultimately show ?thesis by simp
qed

text \<open>
  Claim C4 as first stated has the sandbox released also when its creation raises. With an
  \<open>__enter__\<close> that raises, \<open>execute\<close> ends with that exception after the two calls of
  the creation, and \<open>__exit__\<close> is not among the calls.
\<close>

theorem Build_execute_enter_raises_without_release:
  "Build_execute
     \<lparr>raises = (\<lambda>done c. if c = Sandbox_enter then Some ''OSError'' else None),
      sandbox_dir = \<lparr>root = Slash, components = [''tmp'', ''sandbox'']\<rparr>,
      conda_runtime_bootstrap_script = ''/opt/conda/bootstrap.sh''\<rparr>
     \<lparr>image_path = \<lparr>root = Slash, components = [''home'', ''u'', ''img.sif'']\<rparr>,
      base_image = StrV ''docker://ubuntu:22.04'',
      conda_env = Some \<lparr>root = Slash, components = [''home'', ''u'', ''env.yml'']\<rparr>\<rparr>
     \<lparr>stdout = [], calls = []\<rparr> =
   (Inl (Raised ''OSError''),
    \<lparr>stdout = [], calls = [Sandbox_init (StrV ''docker://ubuntu:22.04''), Sandbox_enter]\<rparr>)
   \<and> Sandbox_exit \<notin> set (calls (snd (Build_execute
     \<lparr>raises = (\<lambda>done c. if c = Sandbox_enter then Some ''OSError'' else None),
      sandbox_dir = \<lparr>root = Slash, components = [''tmp'', ''sandbox'']\<rparr>,
      conda_runtime_bootstrap_script = ''/opt/conda/bootstrap.sh''\<rparr>
     \<lparr>image_path = \<lparr>root = Slash, components = [''home'', ''u'', ''img.sif'']\<rparr>,
      base_image = StrV ''docker://ubuntu:22.04'',
      conda_env = Some \<lparr>root = Slash, components = [''home'', ''u'', ''env.yml'']\<rparr>\<rparr>
     \<lparr>stdout = [], calls = []\<rparr>)))"
  by (simp add: Build_execute_def invoke_def)

text \<open>
  Claim C5: without a Conda environment, \<open>Build.execute\<close> makes no call to
  \<open>CondaInstall\<close>, \<open>run_command\<close>, \<open>add_to_env\<close> or \<open>cleanup_unused_files\<close>, whatever
  raises; it creates the sandbox once, and once the sandbox is entered it calls
  \<open>build_image(image_path)\<close> exactly once, followed by \<open>__exit__\<close>.
\<close>

theorem Build_execute_without_conda_env:
  assumes "conda_env self = None"
  shows
    "(calls (snd (Build_execute w self s)) = calls s @ [Sandbox_init (base_image self)]
      \<or> calls (snd (Build_execute w self s)) = calls s @ [Sandbox_init (base_image self), Sandbox_enter]
      \<or> calls (snd (Build_execute w self s)) =
          calls s @ [Sandbox_init (base_image self), Sandbox_enter,
                     build_image (image_path self), Sandbox_exit])
     \<and> (raises w (calls s) (Sandbox_init (base_image self)) = None \<and>
        raises w (calls s @ [Sandbox_init (base_image self)]) Sandbox_enter = None \<longrightarrow>
        calls (snd (Build_execute w self s)) =
          calls s @ [Sandbox_init (base_image self), Sandbox_enter,
                     build_image (image_path self), Sandbox_exit])
     \<and> ((\<forall>done c. raises w done c = None) \<longrightarrow>
        Build_execute w self s =
          (Inr (), s\<lparr>calls := calls s @
             [Sandbox_init (base_image self), Sandbox_enter,
              build_image (image_path self), Sandbox_exit]\<rparr>))"
proof -
  let ?s2 = "s\<lparr>calls := calls s @ [Sandbox_init (base_image self), Sandbox_enter]\<rparr>"
  have body: "Build_execute_body w self = sequence (map (invoke w) [build_image (image_path self)])"
    using assms by (rule Build_execute_body_None)
  have "snd (Build_execute_body w self ?s2) = ?s2\<lparr>calls := calls ?s2 @ [build_image (image_path self)]\<rparr>"
    by (cases "raises w (calls ?s2) (build_image (image_path self))") (simp_all add: body invoke_def)
  then have entered: "calls (snd (Build_execute w self s)) =
      calls s @ [Sandbox_init (base_image self), Sandbox_enter, build_image (image_path self), Sandbox_exit]"
    if "raises w (calls s) (Sandbox_init (base_image self)) = None"
      "raises w (calls s @ [Sandbox_init (base_image self)]) Sandbox_enter = None"
    using Build_execute_entered(1) [OF that] by simp
  have quiet: "Build_execute w self s =
      (Inr (), s\<lparr>calls := calls s @ [Sandbox_init (base_image self), Sandbox_enter] @
         [build_image (image_path self)] @ [Sandbox_exit]\<rparr>)"
    if "\<forall>done c. raises w done c = None"
    using that body by (rule Build_execute_quiet)
  have shape: "calls (snd (Build_execute w self s)) = calls s @ [Sandbox_init (base_image self)]
      \<or> calls (snd (Build_execute w self s)) = calls s @ [Sandbox_init (base_image self), Sandbox_enter]
      \<or> calls (snd (Build_execute w self s)) =
          calls s @ [Sandbox_init (base_image self), Sandbox_enter,
                     build_image (image_path self), Sandbox_exit]"
  proof (cases "raises w (calls s) (Sandbox_init (base_image self))")
    case (Some e)
    then show ?thesis by (simp add: Build_execute_not_entered(1))
  next
    case None
    show ?thesis
    proof (cases "raises w (calls s @ [Sandbox_init (base_image self)]) Sandbox_enter")
      case (Some e)
      with None show ?thesis by (simp add: Build_execute_not_entered(2))
    next
      case None': None
      from entered [OF None None'] show ?thesis by simp
    qed
  qed
  show ?thesis
    using shape entered quiet by simp
qed

theorem Build_execute_without_conda_env_witness:
  "Build_execute
     \<lparr>raises = (\<lambda>done c. None),
      sandbox_dir = \<lparr>root = Slash, components = [''tmp'', ''sandbox'']\<rparr>,
      conda_runtime_bootstrap_script = ''/opt/conda/bootstrap.sh''\<rparr>
     \<lparr>image_path = \<lparr>root = Slash, components = [''home'', ''u'', ''img.sif'']\<rparr>,
      base_image = StrV ''docker://ubuntu:22.04'',
      conda_env = None\<rparr>
     \<lparr>stdout = [], calls = []\<rparr> =
   (Inr (),
    \<lparr>stdout = [],
     calls =
       [Sandbox_init (StrV ''docker://ubuntu:22.04''), Sandbox_enter,
        build_image \<lparr>root = Slash, components = [''home'', ''u'', ''img.sif'']\<rparr>,
        Sandbox_exit]\<rparr>)"
proof -
  let ?self = "\<lparr>image_path = \<lparr>root = Slash, components = [''home'', ''u'', ''img.sif'']\<rparr>,
      base_image = StrV ''docker://ubuntu:22.04'',
      conda_env = None\<rparr>"
  have env: "conda_env ?self = None" by simp
  show ?thesis
    using Build_execute_without_conda_env [OF env,
      of "\<lparr>raises = (\<lambda>done c. None),
           sandbox_dir = \<lparr>root = Slash, components = [''tmp'', ''sandbox'']\<rparr>,
           conda_runtime_bootstrap_script = ''/opt/conda/bootstrap.sh''\<rparr>"
         "\<lparr>stdout = [], calls = []\<rparr>"]
    by simp
qed

text \<open>
  Claim C6: \<open>Build.__init__\<close> with a path for \<open>image_path\<close> and a path for \<open>conda_env\<close>
  stores both as absolute paths (a relative one under the current directory); without
  \<open>conda_env\<close> it stores \<open>None\<close>; \<open>base_image\<close> is stored as given, whatever it is.
\<close>

theorem Build_init_stores_absolute_paths:
  "Build_init cwd (PathV ip) b (PathV ce) =
     Inr \<lparr>image_path = absolute cwd ip, base_image = b, conda_env = Some (absolute cwd ce)\<rparr>
   \<and> Build_init cwd (PathV ip) b NoneV =
     Inr \<lparr>image_path = absolute cwd ip, base_image = b, conda_env = None\<rparr>
   \<and> is_absolute (absolute cwd ip) \<and> is_absolute (absolute cwd ce)
   \<and> (\<not> is_absolute ip \<longrightarrow> absolute cwd ip = \<lparr>root = Slash, components = cwd @ components ip\<rparr>)
   \<and> (\<not> is_absolute ce \<longrightarrow> absolute cwd ce = \<lparr>root = Slash, components = cwd @ components ce\<rparr>)"
  by (simp add: Build_init_def py_absolute_def absolute_def is_absolute_def)

theorem Build_init_stores_absolute_paths_witness:
  "Build_init [''home'', ''u'']
     (PathV \<lparr>root = NoRoot, components = [''out'', ''img.sif'']\<rparr>)
     (StrV ''docker://ubuntu:22.04'')
     (PathV \<lparr>root = NoRoot, components = [''env.yml'']\<rparr>) =
   Inr \<lparr>image_path = \<lparr>root = Slash, components = [''home'', ''u'', ''out'', ''img.sif'']\<rparr>,
        base_image = StrV ''docker://ubuntu:22.04'',
        conda_env = Some \<lparr>root = Slash, components = [''home'', ''u'', ''env.yml'']\<rparr>\<rparr>"
  using Build_init_stores_absolute_paths
    [of "[''home'', ''u'']" "\<lparr>root = NoRoot, components = [''out'', ''img.sif'']\<rparr>"
        "StrV ''docker://ubuntu:22.04''" "\<lparr>root = NoRoot, components = [''env.yml'']\<rparr>"]
  by (simp add: is_absolute_def)

text \<open>
  Claim C10: \<open>Build.__init__\<close> without \<open>image_path\<close>, that is with its default \<open>None\<close>,
  raises \<open>AttributeError\<close>, whatever the other two arguments are; so does \<open>Build()\<close>
  with no keyword at all.
\<close>

theorem Build_init_without_image_path:
  "Build_init cwd NoneV b ce = Inl AttributeError
   \<and> construct cwd Build_cls [] = Inl AttributeError"
  by (simp add: Build_init_def py_absolute_def construct_def kwarg_def)

section \<open>Properties of the subcommand \<open>info\<close>\<close>

text \<open>
  Claim C7: \<open>Info()\<close> is constructed without arguments, and its \<open>execute\<close> writes the
  one line \<open>Sorry, no information about your system is available at this time.\<close> to
  standard output, returns, and does nothing else.
\<close>

theorem Info_execute_prints:
  "construct cwd Info_cls [] = Inr InfoCmd
   \<and> subcommand_execute w lib InfoCmd = Info_execute
   \<and> Info_execute s =
     (Inr (), s\<lparr>stdout := stdout s @
        ''Sorry, no information about your system is available at this time.'' @ [CHR 0x0A]\<rparr>)"
  by (simp add: construct_def subcommand_execute_def Info_execute_def print_def write_stdout_def)

section \<open>Properties of the command line\<close>

text \<open>
  Setting up the parser raises nothing: the three docstrings have a first line, and the
  docstring of \<open>Build\<close> describes the three arguments of \<open>build\<close>.
\<close>

lemma setup_parser_returns: "\<exists>p. setup_parser = Inr p"
proof -
  have "\<not> isl setup_parser"
    by code_simp
  then have "setup_parser = Inr (projr setup_parser)"
    by simp
  then show ?thesis ..
qed

text \<open>
  Claim C8: without a subcommand on the command line, \<open>BuilderCLI.__init__\<close> raises
  nothing and stores the fallback \<open>NoSubcommand\<close>; its \<open>execute\<close> prints the help of the
  main parser and returns, so the process ends with status 0. With \<open>--help\<close> the same
  text is printed and the process exits with status 0. The two runs leave the same
  output.
\<close>

theorem no_subcommand_prints_help:
  "\<exists>p. setup_parser = Inr p
     \<and> BuilderCLI_init lib cwd [] s = (Inr (NoSubcommand p), s)
     \<and> main w lib cwd [] s = (Inr (), s\<lparr>stdout := stdout s @ format_help lib p\<rparr>)
     \<and> main w lib cwd [''--help''] s =
         (Inl (SystemExit 0), s\<lparr>stdout := stdout s @ format_help lib p\<rparr>)
     \<and> snd (main w lib cwd [] s) = snd (main w lib cwd [''--help''] s)
     \<and> exit_status (fst (main w lib cwd [] s)) = 0
     \<and> exit_status (fst (main w lib cwd [''--help''] s)) = 0"
proof -
  from setup_parser_returns obtain p where p: "setup_parser = Inr p" ..
  have init: "BuilderCLI_init lib cwd [] s = (Inr (NoSubcommand p), s)"
    by (simp add: BuilderCLI_init_def p parse_args_def parse_outcome_of_def)
  have none: "main w lib cwd [] s = (Inr (), s\<lparr>stdout := stdout s @ format_help lib p\<rparr>)"
    by (simp add: main_def init subcommand_execute_def print_help_def write_stdout_def)
  have hlp: "main w lib cwd [''--help''] s =
      (Inl (SystemExit 0), s\<lparr>stdout := stdout s @ format_help lib p\<rparr>)"
    by (simp add: main_def BuilderCLI_init_def p parse_args_def parse_outcome_of_def write_stdout_def)
  show ?thesis
    using p init none hlp by (simp add: exit_status_def)
qed

end
